theory Spec2Isabelle
  imports
    Complex_Main
    "HOL-Library.Char_ord"
    "HOL-Library.List_Lexorder"
    "HOL-Library.Product_Lexorder"
    "HOL-Library.Sublist"
begin

section \<open>Wall-clock instants\<close>

text \<open>
  A \<^verbatim>\<open>datetime.datetime\<close> value of the bot: the local wall clock, no time zone.
\<close>

record datetime =
  year :: nat
  month :: nat
  day :: nat
  hour :: nat
  minute :: nat
  second :: nat
  microsecond :: nat

text \<open>
  \<^verbatim>\<open>datetime\<close> values compare field by field, the year first.
\<close>

definition dt_key :: "datetime \<Rightarrow> nat \<times> nat \<times> nat \<times> nat \<times> nat \<times> nat \<times> nat" where
  "dt_key t = (year t, month t, day t, hour t, minute t, second t, microsecond t)"

section \<open>Entries, sheet rows and the library\<close>

text \<open>
  The two transaction types. The code carries them as the strings \<^verbatim>\<open>"dokhod"\<close> (income)
  and \<^verbatim>\<open>"raskhod"\<close> (expense), written in Cyrillic; the program never builds another
  value for the key \<^verbatim>\<open>type\<close>. Strings are UTF-8 byte sequences, so a Cyrillic literal
  of the source is the list of its bytes.
\<close>

datatype trans_type = Income | Expense

definition income_str :: string where
  "income_str = [CHR 0xD0, CHR 0xB4, CHR 0xD0, CHR 0xBE, CHR 0xD1, CHR 0x85, CHR 0xD0, CHR 0xBE,
     CHR 0xD0, CHR 0xB4]"

definition expense_str :: string where
  "expense_str = [CHR 0xD1, CHR 0x80, CHR 0xD0, CHR 0xB0, CHR 0xD1, CHR 0x81, CHR 0xD1, CHR 0x85,
     CHR 0xD0, CHR 0xBE, CHR 0xD0, CHR 0xB4]"

fun type_str :: "trans_type \<Rightarrow> string" where
  "type_str Income = income_str"
| "type_str Expense = expense_str"

text \<open>
  A financial record, the dict of the source with the keys \<^verbatim>\<open>date\<close>, \<^verbatim>\<open>type\<close>,
  \<^verbatim>\<open>category\<close>, \<^verbatim>\<open>amount\<close>, \<^verbatim>\<open>comment\<close> and, once \<^verbatim>\<open>save_record\<close> has seen it,
  \<^verbatim>\<open>id\<close>. The amount is a Python float; its type is left open here, with a zero, an
  addition, a subtraction and an order of which no law is assumed, so that every theorem
  below holds of binary floating point as it does of exact arithmetic.
\<close>

record 'a entry =
  date :: string
  rtype :: trans_type
  category :: string
  amount :: 'a
  comment :: string
  rec_id :: "string option"

text \<open>
  A row as \<^verbatim>\<open>get_all_records\<close> returns it: a dict from the header's column names to cell
  values, a cell being text or a number. \<^verbatim>\<open>row.get(k)\<close> is \<open>None\<close> when the sheet has no
  column \<open>k\<close>. The code tests and converts the date and amount cells, so these keep their
  dynamic type; the category and comment cells are copied as they are and are text.
\<close>

datatype 'a cell = Text string | Num 'a

record 'a row =
  row_date :: "'a cell option"
  row_category :: string
  row_amount :: "'a cell option"
  row_comment :: string

text \<open>
  The library functions the code calls, taken as parameters: \<open>strptime\<close> is
  \<^verbatim>\<open>datetime.datetime.strptime(s, "%Y-%m-%d %H:%M:%S")\<close> and \<open>float_of_str\<close> is \<^verbatim>\<open>float(s)\<close>
  on a string (\<open>None\<close> where they raise \<^verbatim>\<open>ValueError\<close>), \<open>str_of_float\<close> is the text an
  f-string gives a float, \<open>md5_hexdigest\<close> is \<^verbatim>\<open>hashlib.md5(s.encode('utf-8')).hexdigest()\<close>
  and \<open>month_name\<close> is the locale's full month name (\<^verbatim>\<open>%B\<close>).
\<close>

record 'a builtins =
  strptime :: "string \<Rightarrow> datetime option"
  float_of_str :: "string \<Rightarrow> 'a option"
  str_of_float :: "'a \<Rightarrow> string"
  md5_hexdigest :: "string \<Rightarrow> string"
  month_name :: "nat \<Rightarrow> string"

text \<open>
  The module's global state: the record list, the pending inputs by user id, and the
  spreadsheet service. \<open>gc\<close> is false when the initialisation of the service failed. A
  sheet is \<open>None\<close> while calls to it raise, and otherwise its data rows in order; an
  appended row is returned by the next read as it was written.
\<close>

record pending =
  pending_type :: trans_type
  pending_category :: string

record 'a bot_state =
  records :: "'a entry list"
  pending_inputs :: "int \<rightharpoonup> pending"
  gc :: bool
  income_sheet :: "'a row list option"
  expense_sheet :: "'a row list option"

section \<open>Formatting instants\<close>

definition digit_char :: "nat \<Rightarrow> char" where
  "digit_char n = char_of (48 + n mod 10)"

definition pad2 :: "nat \<Rightarrow> string" where
  "pad2 n = [digit_char (n div 10), digit_char n]"

definition pad4 :: "nat \<Rightarrow> string" where
  "pad4 n = [digit_char (n div 1000), digit_char (n div 100), digit_char (n div 10), digit_char n]"

text \<open>
  \<^verbatim>\<open>strftime("%Y-%m-%d")\<close> and \<^verbatim>\<open>strftime("%Y-%m-%d %H:%M:%S")\<close>, for years of four digits.
\<close>

definition strftime_date :: "datetime \<Rightarrow> string" where
  "strftime_date t = pad4 (year t) @ ''-'' @ pad2 (month t) @ ''-'' @ pad2 (day t)"

definition strftime_full :: "datetime \<Rightarrow> string" where
  "strftime_full t =
     strftime_date t @ '' '' @ pad2 (hour t) @ '':'' @ pad2 (minute t) @ '':'' @ pad2 (second t)"

section \<open>The record store\<close>

text \<open>
  \<^verbatim>\<open>get_record_id\<close>: the MD5 digest of the five fields joined by hyphens.
\<close>

definition hash_input :: "'a builtins \<Rightarrow> 'a entry \<Rightarrow> string" where
  "hash_input lib r =
     date r @ ''-'' @ type_str (rtype r) @ ''-'' @ category r @ ''-''
       @ str_of_float lib (amount r) @ ''-'' @ comment r"

definition get_record_id :: "'a builtins \<Rightarrow> 'a entry \<Rightarrow> string" where
  "get_record_id lib r = md5_hexdigest lib (hash_input lib r)"

text \<open>
  \<^verbatim>\<open>records.sort(key=lambda r: strptime(r["date"], ...))\<close> inside \<^verbatim>\<open>try\<close>: the keys are
  computed first, and when one of them raises the list is left as it was. The sort is
  stable.
\<close>

definition sort_key_of :: "'a builtins \<Rightarrow> 'a entry \<Rightarrow> nat \<times> nat \<times> nat \<times> nat \<times> nat \<times> nat \<times> nat" where
  "sort_key_of lib r = dt_key (the (strptime lib (date r)))"

definition sort_records :: "'a builtins \<Rightarrow> 'a entry list \<Rightarrow> 'a entry list" where
  "sort_records lib rs =
     (if list_all (\<lambda>r. strptime lib (date r) \<noteq> None) rs
      then sort_key (sort_key_of lib) rs else rs)"

text \<open>
  Python's truth value of \<^verbatim>\<open>row.get(k)\<close>: \<open>None\<close>, the empty string and the number zero
  are false.
\<close>

fun truthy :: "'a::zero cell option \<Rightarrow> bool" where
  "truthy None = False"
| "truthy (Some (Text s)) = (s \<noteq> [])"
| "truthy (Some (Num a)) = (a \<noteq> 0)"

text \<open>
  One iteration of the row loop of \<^verbatim>\<open>load_records\<close>: \<open>None\<close> when the row is skipped,
  by the \<^verbatim>\<open>continue\<close> or by an exception (a date cell that is a number makes
  \<open>strptime\<close> raise \<^verbatim>\<open>TypeError\<close>; a date or an amount text that does not parse raises
  \<^verbatim>\<open>ValueError\<close>), and otherwise the record that is appended.
\<close>

definition load_row :: "'a::zero builtins \<Rightarrow> trans_type \<Rightarrow> 'a row \<Rightarrow> 'a entry option" where
  "load_row lib ttype row =
     (if \<not> truthy (row_date row) \<or> \<not> truthy (row_amount row) then None
      else case row_date row of
        Some (Text record_date) \<Rightarrow>
          (case strptime lib record_date of
             None \<Rightarrow> None
           | Some _ \<Rightarrow>
              (case (case row_amount row of
                       Some (Num a) \<Rightarrow> Some a
                     | Some (Text s) \<Rightarrow> float_of_str lib s
                     | None \<Rightarrow> None) of
                 None \<Rightarrow> None
               | Some record_amount \<Rightarrow>
                   Some \<lparr>date = record_date, rtype = ttype, category = row_category row,
                         amount = record_amount, comment = row_comment row, rec_id = None\<rparr>))
      | _ \<Rightarrow> None)"

definition load_sheet :: "'a::zero builtins \<Rightarrow> trans_type \<Rightarrow> 'a row list option \<Rightarrow> 'a entry list" where
  "load_sheet lib ttype sheet =
     (case sheet of None \<Rightarrow> [] | Some data \<Rightarrow> List.map_filter (load_row lib ttype) data)"

definition load_records :: "'a::zero builtins \<Rightarrow> 'a bot_state \<Rightarrow> 'a bot_state" where
  "load_records lib s =
     s\<lparr>records :=
        (if gc s
         then sort_records lib
                (load_sheet lib Income (income_sheet s) @ load_sheet lib Expense (expense_sheet s))
         else [])\<rparr>"

text \<open>
  \<^verbatim>\<open>sheet.append_row(row)\<close> raises when the service does, and where the initialisation
  left the sheet's name undefined.
\<close>

datatype error = SheetError

definition append_row :: "'a row \<Rightarrow> 'a row list option \<Rightarrow> error + 'a row list option" where
  "append_row row sheet = (case sheet of None \<Rightarrow> Inl SheetError | Some data \<Rightarrow> Inr (Some (data @ [row])))"

definition row_of_record :: "'a entry \<Rightarrow> 'a row" where
  "row_of_record r =
     \<lparr>row_date = Some (Text (date r)), row_category = category r,
      row_amount = Some (Num (amount r)), row_comment = comment r\<rparr>"

text \<open>
  \<^verbatim>\<open>save_record_to_sheet\<close> catches every exception of the append and logs it: it returns
  normally whether or not the row was written.
\<close>

definition save_record_to_sheet :: "'a entry \<Rightarrow> 'a bot_state \<Rightarrow> 'a bot_state" where
  "save_record_to_sheet r s =
     (if rtype r = Income
      then (case append_row (row_of_record r) (income_sheet s) of
              Inl e \<Rightarrow> s | Inr sheet \<Rightarrow> s\<lparr>income_sheet := sheet\<rparr>)
      else (case append_row (row_of_record r) (expense_sheet s) of
              Inl e \<Rightarrow> s | Inr sheet \<Rightarrow> s\<lparr>expense_sheet := sheet\<rparr>))"

text \<open>
  \<^verbatim>\<open>save_record\<close>. No statement of its \<^verbatim>\<open>try\<close> block raises (the write catches its own
  exceptions, and so does the sort), so its \<^verbatim>\<open>except\<close> branch, the one that returns
  \<open>False\<close> for a failed write, is never taken and has no counterpart here.
\<close>

definition save_record :: "'a builtins \<Rightarrow> 'a entry \<Rightarrow> 'a bot_state \<Rightarrow> bool \<times> 'a bot_state" where
  "save_record lib r0 s =
     (let r = r0\<lparr>rec_id := Some (get_record_id lib r0)\<rparr> in
      if list_ex (\<lambda>x. Some (get_record_id lib x) = rec_id r) (records s) then (False, s)
      else
        let s1 = save_record_to_sheet r s
        in (True, s1\<lparr>records := sort_records lib (records s1 @ [r])\<rparr>))"

section \<open>Aggregation and reports\<close>

text \<open>
  \<^verbatim>\<open>sum(...)\<close> over a generator: the items are added from the left, starting from \<open>0\<close>.
  On floats this is the sum of CPython up to 3.11, each addition rounded; from 3.12 on
  the interpreter also carries the rounding errors along and adds them at the end, which
  gives the same float whenever no addition rounds, and on the two floats nearest to 0.1
  and 0.2.
\<close>

definition py_sum :: "'a::{zero,plus} list \<Rightarrow> 'a" where
  "py_sum xs = foldl (+) 0 xs"















text \<open>
  The data \<^verbatim>\<open>generate_chart\<close> hands to the plot: the category labels and, in the same
  order, the heights of the income bars and of the expense bars. The two dicts start at
  \<open>0\<close> for every category; \<^verbatim>\<open>d[k] += v\<close> raises \<^verbatim>\<open>KeyError\<close> on a key the dict lacks.
\<close>

datatype chart_error = KeyError

definition dict_add :: "(string \<rightharpoonup> 'a::plus) \<Rightarrow> string \<Rightarrow> 'a \<Rightarrow> chart_error + (string \<rightharpoonup> 'a)" where
  "dict_add d k v = (case d k of None \<Rightarrow> Inl KeyError | Some old \<Rightarrow> Inr (d(k \<mapsto> old + v)))"

fun chart_loop ::
    "'a::plus entry list \<Rightarrow> (string \<rightharpoonup> 'a) \<Rightarrow> (string \<rightharpoonup> 'a)
      \<Rightarrow> chart_error + ((string \<rightharpoonup> 'a) \<times> (string \<rightharpoonup> 'a))" where
  "chart_loop [] income_by_cat expense_by_cat = Inr (income_by_cat, expense_by_cat)"
| "chart_loop (r # rs) income_by_cat expense_by_cat =
     (case rtype r of
        Income \<Rightarrow>
          (case dict_add income_by_cat (category r) (amount r) of
             Inl e \<Rightarrow> Inl e
           | Inr d \<Rightarrow> chart_loop rs d expense_by_cat)
      | Expense \<Rightarrow>
          (case dict_add expense_by_cat (category r) (amount r) of
             Inl e \<Rightarrow> Inl e
           | Inr d \<Rightarrow> chart_loop rs income_by_cat d))"

definition dict_get :: "(string \<rightharpoonup> 'a) \<Rightarrow> string \<Rightarrow> 'a \<Rightarrow> 'a" where
  "dict_get d k dflt = (case d k of None \<Rightarrow> dflt | Some v \<Rightarrow> v)"

definition generate_chart ::
    "'a::{zero,plus} entry list \<Rightarrow> chart_error + (string list \<times> 'a list \<times> 'a list)" where
  "generate_chart period_records =
     (let categories = sort (remdups (map category period_records));
          zeros = map_of (map (\<lambda>cat. (cat, 0)) categories)
      in case chart_loop period_records zeros zeros of
           Inl e \<Rightarrow> Inl e
         | Inr (income_by_cat, expense_by_cat) \<Rightarrow>
             Inr (categories,
                  map (\<lambda>cat. dict_get income_by_cat cat 0) categories,
                  map (\<lambda>cat. dict_get expense_by_cat cat 0) categories))"

section \<open>The conversation\<close>

text \<open>
  Whitespace as \<^verbatim>\<open>str.strip\<close> and \<^verbatim>\<open>str.split\<close> see it, among the ASCII characters: tab to
  carriage return, the four separators \<open>0x1C\<close> to \<open>0x1F\<close>, and the space.
\<close>

definition is_space :: "char \<Rightarrow> bool" where
  "is_space c = (let n = (of_char c :: nat) in (9 \<le> n \<and> n \<le> 13) \<or> (28 \<le> n \<and> n \<le> 32))"

definition strip :: "string \<Rightarrow> string" where
  "strip s = rev (dropWhile is_space (rev (dropWhile is_space s)))"

text \<open>\<^verbatim>\<open>text.split(maxsplit=1)\<close>: the first token and, when there is one, the rest.\<close>

definition split_maxsplit1 :: "string \<Rightarrow> string list" where
  "split_maxsplit1 s =
     (let s1 = dropWhile is_space s in
      if s1 = [] then []
      else
        let rest = dropWhile is_space (dropWhile (\<lambda>c. \<not> is_space c) s1)
        in takeWhile (\<lambda>c. \<not> is_space c) s1 # (if rest = [] then [] else [rest]))"

text \<open>
  What the handler sends. The replies are fixed texts of the source: a request to enter
  an amount and a comment; "wrong format of the amount, enter a number at the start of the
  message"; the saved record; "such a record already exists"; and the main menu.
\<close>

datatype 'a outgoing =
    ReplyEnterAmount
  | ReplyBadAmount
  | ReplySaved "'a entry"
  | ReplyDuplicate
  | SendMainMenu

text \<open>
  \<^verbatim>\<open>process_manual_input\<close>, for a text message \<open>text\<close> of user \<open>user_id\<close> received at
  \<open>now\<close>. The handler runs for users with a pending input. The two early \<^verbatim>\<open>return\<close>s, on
  an empty message and on an amount that \<^verbatim>\<open>float\<close> rejects, leave before
  \<^verbatim>\<open>del pending_inputs[user_id]\<close>.
\<close>

definition process_manual_input ::
    "'a::zero builtins \<Rightarrow> datetime \<Rightarrow> int \<Rightarrow> string \<Rightarrow> 'a bot_state
      \<Rightarrow> 'a outgoing list \<times> 'a bot_state" where
  "process_manual_input lib now user_id text_in s =
     (case pending_inputs s user_id of
        None \<Rightarrow> ([], s)
      | Some pending \<Rightarrow>
          (case split_maxsplit1 (strip text_in) of
             [] \<Rightarrow> ([ReplyEnterAmount], s)
           | part0 # parts \<Rightarrow>
               (case float_of_str lib part0 of
                  None \<Rightarrow> ([ReplyBadAmount], s)
                | Some amount_in \<Rightarrow>
                    let comment_in = (case parts of [] \<Rightarrow> [] | part1 # _ \<Rightarrow> part1);
                        r = \<lparr>date = strftime_full now, rtype = pending_type pending,
                             category = pending_category pending, amount = amount_in,
                             comment = comment_in, rec_id = None\<rparr>;
                        (saved, s1) = save_record lib r s
                    in ((if saved
                         then [ReplySaved (r\<lparr>rec_id := Some (get_record_id lib r)\<rparr>)]
                         else [ReplyDuplicate]) @ [SendMainMenu],
                        s1\<lparr>pending_inputs := (pending_inputs s1)(user_id := None)\<rparr>))))"

section \<open>An instance of the library, on whole amounts\<close>

text \<open>
  The theorems below hold for every choice of the library functions. To run the model on
  explicit inputs, the library is instantiated as follows. Amounts are integers, standing
  for the floats of the same value (below \<open>2 ^ 53\<close> float arithmetic on whole numbers is
  exact). \<open>float_whole\<close> reads an optionally signed run of digits as \<^verbatim>\<open>float\<close> does and
  rejects any other text of this instance; \<open>str_whole\<close> writes a whole float as Python
  does, \<^verbatim>\<open>1000.0\<close>. The digest is the identity: a digest without collisions.
\<close>

definition is_digit :: "char \<Rightarrow> bool" where
  "is_digit c = (let n = (of_char c :: nat) in 48 \<le> n \<and> n \<le> 57)"

definition nat_of_digits :: "string \<Rightarrow> nat" where
  "nat_of_digits ds = foldl (\<lambda>n c. 10 * n + (of_char c - 48)) 0 ds"

definition float_whole :: "string \<Rightarrow> int option" where
  "float_whole s =
     (let (neg, ds) =
        (case s of
           [] \<Rightarrow> (False, [])
         | c # cs \<Rightarrow> if c = CHR ''-'' then (True, cs) else if c = CHR ''+'' then (False, cs)
                    else (False, s))
      in if ds \<noteq> [] \<and> list_all is_digit ds
         then Some (if neg then - int (nat_of_digits ds) else int (nat_of_digits ds))
         else None)"

fun show_nat :: "nat \<Rightarrow> string" where
  "show_nat n = (if n < 10 then [digit_char n] else show_nat (n div 10) @ [digit_char n])"

definition str_whole :: "int \<Rightarrow> string" where
  "str_whole i = (if i < 0 then ''-'' else []) @ show_nat (nat \<bar>i\<bar>) @ ''.0''"

text \<open>
  \<^verbatim>\<open>strptime\<close> with the format \<^verbatim>\<open>%Y-%m-%d %H:%M:%S\<close> on ASCII text, after the patterns of the
  library: the year is four digits; month, day, hour, minute and second are one or two
  digits within their range (a day may also be a space and one digit); the blank of the
  format matches one or more whitespace characters; nothing may follow the seconds. The
  \<^verbatim>\<open>datetime\<close> constructor then rejects the year 0, a day the month does not have and a
  second above 59.
\<close>

definition parse_field :: "nat \<Rightarrow> nat \<Rightarrow> string \<Rightarrow> (nat \<times> string) option" where
  "parse_field lo hi s =
     (let ds = takeWhile is_digit s; n = nat_of_digits ds in
      if 1 \<le> length ds \<and> length ds \<le> 2 \<and> lo \<le> n \<and> n \<le> hi
      then Some (n, dropWhile is_digit s) else None)"

definition parse_year :: "string \<Rightarrow> (nat \<times> string) option" where
  "parse_year s =
     (if 4 \<le> length s \<and> list_all is_digit (take 4 s)
      then Some (nat_of_digits (take 4 s), drop 4 s) else None)"

definition parse_day :: "string \<Rightarrow> (nat \<times> string) option" where
  "parse_day s =
     (case parse_field 1 31 s of
        Some res \<Rightarrow> Some res
      | None \<Rightarrow>
          (case s of
             c # d # rest \<Rightarrow>
               if c = CHR '' '' \<and> is_digit d \<and> d \<noteq> CHR ''0'' then Some (nat_of_digits [d], rest)
               else None
           | _ \<Rightarrow> None))"

definition expect :: "char \<Rightarrow> string \<Rightarrow> string option" where
  "expect c s = (case s of [] \<Rightarrow> None | x # rest \<Rightarrow> if x = c then Some rest else None)"

definition expect_spaces :: "string \<Rightarrow> string option" where
  "expect_spaces s =
     (case s of [] \<Rightarrow> None | x # rest \<Rightarrow> if is_space x then Some (dropWhile is_space rest) else None)"

definition is_leap :: "nat \<Rightarrow> bool" where
  "is_leap y = (y mod 4 = 0 \<and> (y mod 100 \<noteq> 0 \<or> y mod 400 = 0))"

definition days_in_month :: "nat \<Rightarrow> nat \<Rightarrow> nat" where
  "days_in_month y m =
     (if m = 2 then (if is_leap y then 29 else 28)
      else if m = 4 \<or> m = 6 \<or> m = 9 \<or> m = 11 then 30 else 31)"

definition strptime_ascii :: "string \<Rightarrow> datetime option" where
  "strptime_ascii s =
     Option.bind (parse_year s) (\<lambda>(y, s1).
     Option.bind (expect CHR ''-'' s1) (\<lambda>s2.
     Option.bind (parse_field 1 12 s2) (\<lambda>(m, s3).
     Option.bind (expect CHR ''-'' s3) (\<lambda>s4.
     Option.bind (parse_day s4) (\<lambda>(d, s5).
     Option.bind (expect_spaces s5) (\<lambda>s6.
     Option.bind (parse_field 0 23 s6) (\<lambda>(h, s7).
     Option.bind (expect CHR '':'' s7) (\<lambda>s8.
     Option.bind (parse_field 0 59 s8) (\<lambda>(mi, s9).
     Option.bind (expect CHR '':'' s9) (\<lambda>s10.
     Option.bind (parse_field 0 61 s10) (\<lambda>(sec, s11).
       if s11 = [] \<and> 1 \<le> y \<and> d \<le> days_in_month y m \<and> sec \<le> 59
       then Some \<lparr>year = y, month = m, day = d, hour = h, minute = mi, second = sec,
                  microsecond = 0\<rparr>
       else None)))))))))))"

definition month_name_en :: "nat \<Rightarrow> string" where
  "month_name_en m =
     [''January'', ''February'', ''March'', ''April'', ''May'', ''June'', ''July'', ''August'',
      ''September'', ''October'', ''November'', ''December''] ! (m - 1)"

definition whole_lib :: "int builtins" where
  "whole_lib =
     \<lparr>strptime = strptime_ascii, float_of_str = float_whole, str_of_float = str_whole,
      md5_hexdigest = (\<lambda>s. s), month_name = month_name_en\<rparr>"

section \<open>The monthly push\<close>


text \<open>
  The first statements of the loop body of \<^verbatim>\<open>monthly_summary_task\<close>: the instant the
  task sleeps until, computed from the current instant.
  \<^verbatim>\<open>
    if now.day == 1 and now.hour < 10:
        target = now.replace(hour=10, minute=0, second=0, microsecond=0)
    else:
        if now.month == 12:
            target = datetime.datetime(now.year + 1, 1, 1, 10, 0, 0)
        else:
            target = datetime.datetime(now.year, now.month + 1, 1, 10, 0, 0)
  \<close>
\<close>

definition monthly_summary_task_target :: "datetime \<Rightarrow> datetime" where
  "monthly_summary_task_target now =
     (if day now = 1 \<and> hour now < 10
      then now\<lparr>hour := 10, minute := 0, second := 0, microsecond := 0\<rparr>
      else if month now = 12
      then \<lparr>year = year now + 1, month = 1, day = 1,
            hour = 10, minute = 0, second = 0, microsecond = 0\<rparr>
      else \<lparr>year = year now, month = month now + 1, day = 1,
            hour = 10, minute = 0, second = 0, microsecond = 0\<rparr>)"

section \<open>The order of the records\<close>

text \<open>
  The records are in ascending order of their timestamps when every date parses and the
  parsed instants ascend along the list.
\<close>

definition store_sorted :: "'a builtins \<Rightarrow> 'a entry list \<Rightarrow> bool" where
  "store_sorted lib rs =
     (list_all (\<lambda>r. strptime lib (date r) \<noteq> None) rs \<and> sorted (map (sort_key_of lib) rs))"

section \<open>Totals by category\<close>

text \<open>
  The sum of the amounts of one type in one category, as the specification words the
  breakdown: the amounts are added in the order of the records.
\<close>

definition category_total :: "trans_type \<Rightarrow> string \<Rightarrow> 'a::{zero,plus} entry list \<Rightarrow> 'a" where
  "category_total k cat rs =
     py_sum (map amount (filter (\<lambda>r. rtype r = k \<and> category r = cat) rs))"

text \<open>
  The dict of one type after the loop of \<^verbatim>\<open>generate_chart\<close> over the records \<open>rs\<close>,
  from the dict \<open>d\<close> before it: each key has gained the amounts of its records.
\<close>

definition bump ::
    "trans_type \<Rightarrow> 'a::plus entry list \<Rightarrow> (string \<rightharpoonup> 'a) \<Rightarrow> (string \<rightharpoonup> 'a)" where
  "bump k rs d =
     (\<lambda>cat. map_option
        (\<lambda>v. foldl (+) v (map amount (filter (\<lambda>r. rtype r = k \<and> category r = cat) rs))) (d cat))"

section \<open>Identity of entries\<close>



section \<open>The day of an entry\<close>




section \<open>Binary floating point\<close>

text \<open>
  The amounts of the program are Python floats: IEEE 754 binary64 numbers. Their finite
  values are modelled as rationals. \<open>round_double\<close> rounds a rational to the nearest number
  with a significand of 53 bits, ties to the even significand; the exponent is taken to be
  unbounded, so the model is that of binary64 between its smallest normal number and its
  largest number, without infinities, NaN or a negative zero. Addition and subtraction
  round the exact result, as the standard has it.
\<close>

fun bitlen_nat :: "nat \<Rightarrow> nat" where
  "bitlen_nat n = (if n = 0 then 0 else Suc (bitlen_nat (n div 2)))"

definition pow2 :: "int \<Rightarrow> rat" where
  "pow2 e = (if 0 \<le> e then 2 ^ nat e else 1 / 2 ^ nat (- e))"

text \<open>The exponent \<open>e\<close> of a rational \<open>q \<noteq> 0\<close>: \<open>2 ^ e \<le> \<bar>q\<bar> < 2 ^ (e + 1)\<close>.\<close>

definition exponent :: "rat \<Rightarrow> int" where
  "exponent q =
     (if 1 \<le> \<bar>q\<bar> then int (bitlen_nat (nat \<lfloor>\<bar>q\<bar>\<rfloor>)) - 1
      else - int (bitlen_nat (nat \<lceil>1 / \<bar>q\<bar>\<rceil> - 1)))"

definition round_half_even :: "rat \<Rightarrow> int" where
  "round_half_even q =
     (let f = \<lfloor>q\<rfloor>; r = q - of_int f in
      if r < 1 / 2 then f else if 1 / 2 < r then f + 1 else if even f then f else f + 1)"

definition round_double :: "rat \<Rightarrow> rat" where
  "round_double q =
     (if q = 0 then 0
      else let ulp = pow2 (exponent q - 52) in of_int (round_half_even (q / ulp)) * ulp)"

datatype double = Double (dval: rat)

instantiation double :: "{zero, plus, minus, ord}"
begin

definition zero_double :: double where
  "zero_double = Double 0"

definition plus_double :: "double \<Rightarrow> double \<Rightarrow> double" where
  "plus_double a b = Double (round_double (dval a + dval b))"

definition minus_double :: "double \<Rightarrow> double \<Rightarrow> double" where
  "minus_double a b = Double (round_double (dval a - dval b))"

definition less_eq_double :: "double \<Rightarrow> double \<Rightarrow> bool" where
  "less_eq_double a b = (dval a \<le> dval b)"

definition less_double :: "double \<Rightarrow> double \<Rightarrow> bool" where
  "less_double a b = (dval a < dval b)"

instance ..

end

text \<open>
  The float nearest to a rational, which is what \<^verbatim>\<open>float\<close> makes of a decimal text; and the
  floats that are whole numbers.
\<close>

definition nearest_double :: "rat \<Rightarrow> double" where
  "nearest_double q = Double (round_double q)"



section \<open>Inputs of the instances\<close>

text \<open>
  Explicit records and states on which the theorems are run.
\<close>

definition entry_a :: "int entry" where
  "entry_a = \<lparr>date = ''2024-01-01 09:00:00'', rtype = Income, category = ''Business'',
      amount = 1000, comment = [], rec_id = None\<rparr>"

definition state_down :: "int bot_state" where
  "state_down = \<lparr>records = [], pending_inputs = Map.empty, gc = True,
      income_sheet = None, expense_sheet = None\<rparr>"



definition entry_b :: "int entry" where
  "entry_b = \<lparr>date = ''2024-01-01 18:00:00'', rtype = Expense, category = ''Products'',
      amount = 300, comment = ''groceries'', rec_id = None\<rparr>"

definition entry_c :: "int entry" where
  "entry_c = \<lparr>date = ''2023-12-31 23:59:59'', rtype = Income, category = ''Business'',
      amount = 50, comment = ''late'', rec_id = None\<rparr>"

definition entry_zero :: "int entry" where
  "entry_zero = \<lparr>date = ''2024-01-01 10:00:00'', rtype = Expense, category = ''Transport'',
      amount = 0, comment = ''free ride'', rec_id = None\<rparr>"

definition state_sheets :: "int bot_state" where
  "state_sheets =
     \<lparr>records = [], pending_inputs = Map.empty, gc = True,
      income_sheet = Some [row_of_record entry_a, row_of_record entry_c],
      expense_sheet = Some [row_of_record entry_b]\<rparr>"

definition entry_new :: "int entry" where
  "entry_new = \<lparr>date = ''2024-01-02 08:30:00'', rtype = Expense, category = ''Transport'',
      amount = 45, comment = ''bus'', rec_id = None\<rparr>"








definition entry_tenth :: "double entry" where
  "entry_tenth = \<lparr>date = ''2024-01-01 09:00:00'', rtype = Income, category = ''Business'',
      amount = nearest_double (1 / 10), comment = [], rec_id = None\<rparr>"

definition entry_fifth :: "double entry" where
  "entry_fifth = \<lparr>date = ''2024-01-01 10:00:00'', rtype = Income, category = ''Business'',
      amount = nearest_double (2 / 10), comment = [], rec_id = None\<rparr>"




section \<open>Basic facts\<close>

lemma set_sort_records: "set (sort_records lib rs) = set rs"
  by (simp add: sort_records_def)

lemma length_sort_records: "length (sort_records lib rs) = length rs"
  by (simp add: sort_records_def)

lemma save_record_to_sheet_records: "records (save_record_to_sheet r s) = records s"
  by (simp add: save_record_to_sheet_def append_row_def split: option.splits)

lemma save_record_to_sheet_pending:
  "pending_inputs (save_record_to_sheet r s) = pending_inputs s"
  by (simp add: save_record_to_sheet_def append_row_def split: option.splits)

lemma get_record_id_rec_id: "get_record_id lib (r\<lparr>rec_id := i\<rparr>) = get_record_id lib r"
  by (simp add: get_record_id_def hash_input_def)

text \<open>The two outcomes of \<^verbatim>\<open>save_record\<close>.\<close>

lemma save_record_duplicate:
  "list_ex (\<lambda>x. get_record_id lib x = get_record_id lib r) (records s)
   \<Longrightarrow> save_record lib r s = (False, s)"
  by (simp add: save_record_def Let_def)

lemma save_record_fresh:
  "\<not> list_ex (\<lambda>x. get_record_id lib x = get_record_id lib r) (records s)
   \<Longrightarrow> save_record lib r s =
        (True, (save_record_to_sheet (r\<lparr>rec_id := Some (get_record_id lib r)\<rparr>) s)
           \<lparr>records :=
              sort_records lib (records s @ [r\<lparr>rec_id := Some (get_record_id lib r)\<rparr>])\<rparr>)"
  by (simp add: save_record_def Let_def save_record_to_sheet_records)



section \<open>A failed write\<close>

text \<open>
  C1. The claim: when the write-through append fails, \<^verbatim>\<open>save_record\<close> returns false and
  the entry is not added to the records in memory. The code does otherwise:
  \<^verbatim>\<open>save_record_to_sheet\<close> catches the exception of the append itself, so
  \<^verbatim>\<open>save_record\<close> never sees it. For an entry that is no duplicate and whose sheet raises,
  \<^verbatim>\<open>save_record\<close> returns true and the entry, with its id, is in the records afterwards,
  which have grown by one; no sheet has changed.
\<close>

theorem save_record_failed_write:
  assumes "\<not> list_ex (\<lambda>x. get_record_id lib x = get_record_id lib r) (records s)"
      and "(if rtype r = Income then income_sheet s else expense_sheet s) = None"
  shows "fst (save_record lib r s)
       \<and> r\<lparr>rec_id := Some (get_record_id lib r)\<rparr> \<in> set (records (snd (save_record lib r s)))
       \<and> length (records (snd (save_record lib r s))) = Suc (length (records s))
       \<and> income_sheet (snd (save_record lib r s)) = income_sheet s
       \<and> expense_sheet (snd (save_record lib r s)) = expense_sheet s"
  using assms
  by (auto simp add: save_record_fresh set_sort_records length_sort_records
       save_record_to_sheet_def append_row_def split: if_splits)

theorem save_record_failed_write_witness:
  "records state_down = [] \<and> income_sheet state_down = None
   \<and> fst (save_record whole_lib entry_a state_down)
   \<and> entry_a\<lparr>rec_id := Some (get_record_id whole_lib entry_a)\<rparr>
        \<in> set (records (snd (save_record whole_lib entry_a state_down)))
   \<and> length (records (snd (save_record whole_lib entry_a state_down))) = 1"
  using save_record_failed_write [of whole_lib entry_a state_down]
  by (simp add: state_down_def entry_a_def)

section \<open>An amount that does not parse\<close>





section \<open>Properties of the monthly push\<close>

text \<open>
  C8. The next fire time of the monthly push: on the 1st of a month before 10:00 it is
  10:00:00 of the same day; at any other instant it is 10:00:00 on the 1st of the
  following month, which after December is January of the next year. From
  2024-03-01 09:00:00 the target is 2024-03-01 10:00:00, and from 2024-03-01 11:00:00 it is
  2024-04-01 10:00:00.
\<close>

theorem monthly_target_next_fire:
  "(day now = 1 \<and> hour now < 10 \<longrightarrow>
      monthly_summary_task_target now =
        \<lparr>year = year now, month = month now, day = day now,
         hour = 10, minute = 0, second = 0, microsecond = 0\<rparr>)
   \<and> (\<not> (day now = 1 \<and> hour now < 10) \<and> month now \<noteq> 12 \<longrightarrow>
      monthly_summary_task_target now =
        \<lparr>year = year now, month = month now + 1, day = 1,
         hour = 10, minute = 0, second = 0, microsecond = 0\<rparr>)
   \<and> (\<not> (day now = 1 \<and> hour now < 10) \<and> month now = 12 \<longrightarrow>
      monthly_summary_task_target now =
        \<lparr>year = year now + 1, month = 1, day = 1,
         hour = 10, minute = 0, second = 0, microsecond = 0\<rparr>)
   \<and> monthly_summary_task_target
        \<lparr>year = 2024, month = 3, day = 1, hour = 9, minute = 0, second = 0, microsecond = 0\<rparr>
      = \<lparr>year = 2024, month = 3, day = 1, hour = 10, minute = 0, second = 0, microsecond = 0\<rparr>
   \<and> monthly_summary_task_target
        \<lparr>year = 2024, month = 3, day = 1, hour = 11, minute = 0, second = 0, microsecond = 0\<rparr>
      = \<lparr>year = 2024, month = 4, day = 1, hour = 10, minute = 0, second = 0, microsecond = 0\<rparr>"
  by (simp add: monthly_summary_task_target_def)

theorem monthly_target_next_fire_witness:
  "monthly_summary_task_target
      \<lparr>year = 2024, month = 12, day = 31, hour = 23, minute = 59, second = 59,
       microsecond = 250000\<rparr>
    = \<lparr>year = 2025, month = 1, day = 1, hour = 10, minute = 0, second = 0, microsecond = 0\<rparr>
   \<and> monthly_summary_task_target
      \<lparr>year = 2024, month = 6, day = 1, hour = 9, minute = 59, second = 59,
       microsecond = 999999\<rparr>
    = \<lparr>year = 2024, month = 6, day = 1, hour = 10, minute = 0, second = 0, microsecond = 0\<rparr>
   \<and> monthly_summary_task_target
      \<lparr>year = 2024, month = 6, day = 1, hour = 10, minute = 0, second = 0, microsecond = 0\<rparr>
    = \<lparr>year = 2024, month = 7, day = 1, hour = 10, minute = 0, second = 0, microsecond = 0\<rparr>"
  using
    monthly_target_next_fire [of "\<lparr>year = 2024, month = 12, day = 31, hour = 23, minute = 59,
      second = 59, microsecond = 250000\<rparr>"]
    monthly_target_next_fire [of "\<lparr>year = 2024, month = 6, day = 1, hour = 9, minute = 59,
      second = 59, microsecond = 999999\<rparr>"]
    monthly_target_next_fire [of "\<lparr>year = 2024, month = 6, day = 1, hour = 10, minute = 0,
      second = 0, microsecond = 0\<rparr>"]
  by simp

section \<open>Refreshing and appending\<close>

lemma in_set_map_filter:
  "y \<in> set (List.map_filter f xs) \<longleftrightarrow> (\<exists>x\<in>set xs. f x = Some y)"
  by (induction xs) (auto split: option.splits)

lemma map_filter_append:
  "List.map_filter f (xs @ ys) = List.map_filter f xs @ List.map_filter f ys"
  by (induction xs) (auto split: option.splits)

lemma map_filter_filter_None:
  "(\<And>x. x \<in> set xs \<Longrightarrow> \<not> P x \<Longrightarrow> f x = None)
   \<Longrightarrow> List.map_filter f (filter P xs) = List.map_filter f xs"
  by (induction xs) (auto split: option.splits)

lemma load_row_date: "load_row lib k row = Some r \<Longrightarrow> strptime lib (date r) \<noteq> None"
  by (auto simp add: load_row_def split: if_splits option.splits cell.splits)

lemma load_sheet_dates: "r \<in> set (load_sheet lib k sh) \<Longrightarrow> strptime lib (date r) \<noteq> None"
  by (auto simp add: load_sheet_def in_set_map_filter dest: load_row_date split: option.splits)

lemma store_sorted_sort_records:
  "list_all (\<lambda>r. strptime lib (date r) \<noteq> None) rs \<Longrightarrow> store_sorted lib (sort_records lib rs)"
  by (simp add: store_sorted_def sort_records_def list_all_iff)

lemma load_records_sorted: "store_sorted lib (records (load_records lib s))"
proof (cases "gc s")
  case True
  have "list_all (\<lambda>r. strptime lib (date r) \<noteq> None)
          (load_sheet lib Income (income_sheet s) @ load_sheet lib Expense (expense_sheet s))"
    by (auto simp add: list_all_iff dest: load_sheet_dates)
  then show ?thesis
    using True by (simp add: load_records_def store_sorted_sort_records)
next
  case False
  then show ?thesis by (simp add: load_records_def store_sorted_def)
qed

lemma save_record_sorted:
  assumes "store_sorted lib (records s)" and "strptime lib (date r) \<noteq> None"
  shows "store_sorted lib (records (snd (save_record lib r s)))"
proof (cases "list_ex (\<lambda>x. get_record_id lib x = get_record_id lib r) (records s)")
  case True
  then show ?thesis using assms by (simp add: save_record_duplicate)
next
  case False
  have "list_all (\<lambda>r. strptime lib (date r) \<noteq> None)
          (records s @ [r\<lparr>rec_id := Some (get_record_id lib r)\<rparr>])"
    using assms by (simp add: store_sorted_def)
  then show ?thesis
    using False by (simp add: save_record_fresh store_sorted_sort_records)
qed

lemma process_manual_input_sorted:
  assumes "store_sorted lib (records s)" and "strptime lib (strftime_full now) \<noteq> None"
  shows "store_sorted lib (records (snd (process_manual_input lib now user_id text_in s)))"
proof -
  have "store_sorted lib (records (snd (save_record lib r s)))" if "date r = strftime_full now" for r
    using assms that by (simp add: save_record_sorted)
  then show ?thesis
    using assms(1)
    by (auto simp add: process_manual_input_def Let_def split_beta
        split: option.splits list.splits)
qed

text \<open>Runs of the store on the sheets of \<open>state_sheets\<close>.\<close>

lemma run_refresh: "records (load_records whole_lib state_sheets) = [entry_c, entry_a, entry_b]"
  by code_simp

lemma run_append:
  "fst (save_record whole_lib entry_zero (load_records whole_lib state_sheets))
   \<and> records (snd (save_record whole_lib entry_zero (load_records whole_lib state_sheets)))
       = [entry_c, entry_a,
          entry_zero\<lparr>rec_id := Some (get_record_id whole_lib entry_zero)\<rparr>, entry_b]"
  by code_simp

lemma run_refresh_again:
  "records (load_records whole_lib (load_records whole_lib state_sheets))
   = [entry_c, entry_a, entry_b]"
  by code_simp

lemma run_parse_zero: "strptime whole_lib (date entry_zero) \<noteq> None"
  by code_simp


text \<open>
  C9. After each mutation of the record store the records are in ascending order of their
  timestamps: after a refresh by \<^verbatim>\<open>load_records\<close>, whatever the sheets hold; after
  \<^verbatim>\<open>save_record\<close> on sorted records, for an entry whose date parses; and so after
  \<^verbatim>\<open>process_manual_input\<close>, whose entries carry the formatted current instant.
\<close>

theorem records_sorted_after_mutation:
  "store_sorted lib (records (load_records lib s))
   \<and> (store_sorted lib (records s) \<and> strptime lib (date r) \<noteq> None \<longrightarrow>
        store_sorted lib (records (snd (save_record lib r s))))
   \<and> (store_sorted lib (records s) \<and> strptime lib (strftime_full now) \<noteq> None \<longrightarrow>
        store_sorted lib (records (snd (process_manual_input lib now user_id text_in s))))"
  by (simp add: load_records_sorted save_record_sorted process_manual_input_sorted)

theorem records_sorted_after_mutation_witness:
  "records (load_records whole_lib state_sheets) = [entry_c, entry_a, entry_b]
   \<and> store_sorted whole_lib (records (load_records whole_lib state_sheets))
   \<and> strptime whole_lib (date entry_zero) \<noteq> None
   \<and> records (snd (save_record whole_lib entry_zero (load_records whole_lib state_sheets)))
       = [entry_c, entry_a,
          entry_zero\<lparr>rec_id := Some (get_record_id whole_lib entry_zero)\<rparr>, entry_b]
   \<and> store_sorted whole_lib
        (records (snd (save_record whole_lib entry_zero (load_records whole_lib state_sheets))))"
  using
    records_sorted_after_mutation [of whole_lib state_sheets]
    records_sorted_after_mutation [of whole_lib "load_records whole_lib state_sheets" entry_zero]
    run_refresh run_append run_parse_zero
  by simp

section \<open>Rows without an amount\<close>

lemma load_row_falsy_amount: "\<not> truthy (row_amount row) \<Longrightarrow> load_row lib k row = None"
  by (simp add: load_row_def)

lemma load_sheet_skips_falsy:
  "load_sheet lib k (Some (filter (\<lambda>row. truthy (row_amount row)) data))
   = load_sheet lib k (Some data)"
  unfolding load_sheet_def option.case
  by (rule map_filter_filter_None) (simp add: load_row_falsy_amount)

lemma load_sheet_append_zero:
  "amount r = 0
   \<Longrightarrow> load_sheet lib k (Some (data @ [row_of_record r])) = load_sheet lib k (Some data)"
  by (simp add: load_sheet_def map_filter_append row_of_record_def load_row_def)

lemma refresh_after_zero_amount:
  assumes z: "amount r = 0"
  shows "records (load_records lib (snd (save_record lib r s))) = records (load_records lib s)"
proof (cases "list_ex (\<lambda>x. get_record_id lib x = get_record_id lib r) (records s)")
  case True
  then show ?thesis by (simp add: save_record_duplicate)
next
  case False
  let ?r = "r\<lparr>rec_id := Some (get_record_id lib r)\<rparr>"
  have a: "amount ?r = 0" using z by simp
  have "load_sheet lib Income (income_sheet (save_record_to_sheet ?r s))
        = load_sheet lib Income (income_sheet s)"
    using load_sheet_append_zero [OF a, of lib Income]
    by (auto simp add: save_record_to_sheet_def append_row_def split: option.splits)
  moreover have "load_sheet lib Expense (expense_sheet (save_record_to_sheet ?r s))
        = load_sheet lib Expense (expense_sheet s)"
    using load_sheet_append_zero [OF a, of lib Expense]
    by (auto simp add: save_record_to_sheet_def append_row_def split: option.splits)
  moreover have "gc (save_record_to_sheet ?r s) = gc s"
    by (simp add: save_record_to_sheet_def append_row_def split: option.splits)
  ultimately show ?thesis
    using False by (simp add: save_record_fresh load_records_def)
qed

text \<open>
  C10. A refresh skips every row whose amount is false for Python: the number zero and
  the empty text as well as a missing amount. A row with the amount 0 is treated as the
  same row with no amount, and a sheet loads as it does without such rows. So an entry
  with amount 0 does not survive a refresh: after \<^verbatim>\<open>save_record\<close> of such an entry the
  refresh yields the records it would have yielded without the append.
\<close>

theorem falsy_amount_rows_skipped:
  "(\<not> truthy (row_amount row) \<longrightarrow> load_row lib k row = None)
   \<and> load_row lib k (row\<lparr>row_amount := Some (Num 0)\<rparr>)
       = load_row lib k (row\<lparr>row_amount := None\<rparr>)
   \<and> load_row lib k (row\<lparr>row_amount := Some (Text [])\<rparr>)
       = load_row lib k (row\<lparr>row_amount := None\<rparr>)
   \<and> load_sheet lib k (Some (filter (\<lambda>row. truthy (row_amount row)) data))
       = load_sheet lib k (Some data)
   \<and> (amount r = 0 \<longrightarrow>
        records (load_records lib (snd (save_record lib r s))) = records (load_records lib s))"
  by (simp add: load_row_falsy_amount load_sheet_skips_falsy refresh_after_zero_amount)

theorem falsy_amount_rows_skipped_witness:
  "\<not> truthy (row_amount (row_of_record entry_zero))
   \<and> load_row whole_lib Expense (row_of_record entry_zero) = None
   \<and> amount entry_zero = 0
   \<and> fst (save_record whole_lib entry_zero (load_records whole_lib state_sheets))
   \<and> entry_zero\<lparr>rec_id := Some (get_record_id whole_lib entry_zero)\<rparr>
        \<in> set (records (snd (save_record whole_lib entry_zero
                (load_records whole_lib state_sheets))))
   \<and> records (load_records whole_lib
        (snd (save_record whole_lib entry_zero (load_records whole_lib state_sheets))))
       = [entry_c, entry_a, entry_b]"
  using
    falsy_amount_rows_skipped [where row = "row_of_record entry_zero" and lib = whole_lib
      and k = Expense and r = entry_zero and s = "load_records whole_lib state_sheets"]
    run_append run_refresh_again
  by (simp add: entry_zero_def row_of_record_def)

section \<open>The round trip through the sheets\<close>

lemma load_row_of_record:
  "load_row lib k (row_of_record r) = Some x \<Longrightarrow> x = r\<lparr>rtype := k, rec_id := None\<rparr>"
  by (auto simp add: load_row_def row_of_record_def split: if_splits option.splits)

lemma load_row_of_record_ok:
  "date r \<noteq> [] \<Longrightarrow> amount r \<noteq> 0 \<Longrightarrow> strptime lib (date r) \<noteq> None
   \<Longrightarrow> load_row lib k (row_of_record r) = Some (r\<lparr>rtype := k, rec_id := None\<rparr>)"
  by (auto simp add: load_row_def row_of_record_def)

lemma load_sheet_last:
  "load_row lib k row = Some x \<Longrightarrow> x \<in> set (load_sheet lib k (Some (data @ [row])))"
  by (simp add: load_sheet_def map_filter_append)

text \<open>
  C5. An entry that \<^verbatim>\<open>save_record\<close> accepts is written as a row of the sheet of its type,
  when the service answers. Whatever record a refresh makes of that row has the date, type,
  category, amount and comment of the entry, and so its identity hash; and the refresh
  does recover it, among the records in memory, when the date is not empty and parses and
  the amount is not zero.
\<close>

theorem save_then_refresh_round_trip:
  assumes fresh: "\<not> list_ex (\<lambda>x. get_record_id lib x = get_record_id lib r) (records s)"
      and up: "gc s" "(if rtype r = Income then income_sheet s else expense_sheet s) = Some data"
  shows "fst (save_record lib r s)
       \<and> (if rtype r = Income then income_sheet (snd (save_record lib r s))
           else expense_sheet (snd (save_record lib r s)))
          = Some (data @ [row_of_record (r\<lparr>rec_id := Some (get_record_id lib r)\<rparr>)])
       \<and> (\<forall>x. load_row lib (rtype r)
                 (row_of_record (r\<lparr>rec_id := Some (get_record_id lib r)\<rparr>)) = Some x \<longrightarrow>
              date x = date r \<and> rtype x = rtype r \<and> category x = category r
              \<and> amount x = amount r \<and> comment x = comment r
              \<and> get_record_id lib x = get_record_id lib r)
       \<and> (date r \<noteq> [] \<and> amount r \<noteq> 0 \<and> strptime lib (date r) \<noteq> None \<longrightarrow>
            r\<lparr>rec_id := None\<rparr> \<in> set (records (load_records lib (snd (save_record lib r s)))))"
proof -
  let ?r = "r\<lparr>rec_id := Some (get_record_id lib r)\<rparr>"
  let ?s = "snd (save_record lib r s)"
  have s': "?s = (save_record_to_sheet ?r s)\<lparr>records := sort_records lib (records s @ [?r])\<rparr>"
    using fresh by (simp add: save_record_fresh)
  have sheet: "(if rtype r = Income then income_sheet ?s else expense_sheet ?s)
      = Some (data @ [row_of_record ?r])"
    using up(2) by (auto simp add: s' save_record_to_sheet_def append_row_def split: if_splits)
  have same: "date x = date r \<and> rtype x = rtype r \<and> category x = category r
      \<and> amount x = amount r \<and> comment x = comment r \<and> get_record_id lib x = get_record_id lib r"
    if "load_row lib (rtype r) (row_of_record ?r) = Some x" for x
    using load_row_of_record [OF that] by (simp add: get_record_id_def hash_input_def)
  have recovered: "r\<lparr>rec_id := None\<rparr> \<in> set (records (load_records lib ?s))"
    if ok: "date r \<noteq> []" "amount r \<noteq> 0" "strptime lib (date r) \<noteq> None"
  proof -
    have row: "load_row lib (rtype r) (row_of_record ?r) = Some (r\<lparr>rec_id := None\<rparr>)"
      using load_row_of_record_ok [of ?r lib "rtype r"] ok by simp
    have g: "gc ?s"
      using up(1) by (simp add: s' save_record_to_sheet_def append_row_def split: option.splits)
    show ?thesis
    proof (cases "rtype r = Income")
      case True
      then have "income_sheet ?s = Some (data @ [row_of_record ?r])" using sheet by simp
      then have "r\<lparr>rec_id := None\<rparr> \<in> set (load_sheet lib Income (income_sheet ?s))"
        using load_sheet_last [of lib Income "row_of_record ?r" _ data] row True by simp
      then show ?thesis using g by (simp add: load_records_def set_sort_records)
    next
      case False
      then have e: "rtype r = Expense" by (cases "rtype r") simp_all
      then have "expense_sheet ?s = Some (data @ [row_of_record ?r])" using sheet by simp
      then have "r\<lparr>rec_id := None\<rparr> \<in> set (load_sheet lib Expense (expense_sheet ?s))"
        using load_sheet_last [of lib Expense "row_of_record ?r" _ data] row e by simp
      then show ?thesis using g by (simp add: load_records_def set_sort_records)
    qed
  qed
  have acc: "fst (save_record lib r s)"
    using fresh by (simp add: save_record_fresh)
  show ?thesis
    using acc sheet same recovered by blast
qed


lemma run_parse_new: "strptime whole_lib (date entry_new) \<noteq> None"
  by code_simp

theorem save_then_refresh_round_trip_witness:
  "records state_sheets = [] \<and> gc state_sheets
   \<and> expense_sheet state_sheets = Some [row_of_record entry_b]
   \<and> fst (save_record whole_lib entry_new state_sheets)
   \<and> expense_sheet (snd (save_record whole_lib entry_new state_sheets))
       = Some [row_of_record entry_b,
               row_of_record (entry_new\<lparr>rec_id := Some (get_record_id whole_lib entry_new)\<rparr>)]
   \<and> entry_new \<in> set (records (load_records whole_lib
                          (snd (save_record whole_lib entry_new state_sheets))))"
  using save_then_refresh_round_trip [of whole_lib entry_new state_sheets "[row_of_record entry_b]"]
    run_parse_new
  by (simp add: state_sheets_def entry_new_def)

section \<open>The chart's breakdown\<close>

lemma chart_loop_result:
  "category ` set rs \<subseteq> dom inc \<Longrightarrow> category ` set rs \<subseteq> dom ex
   \<Longrightarrow> chart_loop rs inc ex = Inr (bump Income rs inc, bump Expense rs ex)"
proof (induction rs arbitrary: inc ex)
  case Nil
  then show ?case by (simp add: bump_def option.map_ident)
next
  case (Cons r rs)
  from Cons.prems obtain vi ve where vi: "inc (category r) = Some vi"
    and ve: "ex (category r) = Some ve"
    by auto
  show ?case
  proof (cases "rtype r")
    case Income
    let ?inc = "inc(category r \<mapsto> vi + amount r)"
    have "chart_loop (r # rs) inc ex = chart_loop rs ?inc ex"
      using Income vi by (simp add: dict_add_def)
    also have "\<dots> = Inr (bump Income rs ?inc, bump Expense rs ex)"
      using Cons.prems by (intro Cons.IH) auto
    also have "bump Income rs ?inc = bump Income (r # rs) inc"
      using Income vi by (auto simp add: bump_def fun_eq_iff)
    also have "bump Expense rs ex = bump Expense (r # rs) ex"
      using Income by (auto simp add: bump_def fun_eq_iff)
    finally show ?thesis .
  next
    case Expense
    let ?ex = "ex(category r \<mapsto> ve + amount r)"
    have "chart_loop (r # rs) inc ex = chart_loop rs inc ?ex"
      using Expense ve by (simp add: dict_add_def)
    also have "\<dots> = Inr (bump Income rs inc, bump Expense rs ?ex)"
      using Cons.prems by (intro Cons.IH) auto
    also have "bump Expense rs ?ex = bump Expense (r # rs) ex"
      using Expense ve by (auto simp add: bump_def fun_eq_iff)
    also have "bump Income rs inc = bump Income (r # rs) inc"
      using Expense by (auto simp add: bump_def fun_eq_iff)
    finally show ?thesis .
  qed
qed

lemma zeros_lookup:
  "map_of (map (\<lambda>cat. (cat, 0)) cats) c = (if c \<in> set cats then Some 0 else None)"
  by (induction cats) auto

lemma dict_get_bump_zeros:
  "c \<in> set cats
   \<Longrightarrow> dict_get (bump k rs (map_of (map (\<lambda>cat. (cat, 0)) cats))) c 0 = category_total k c rs"
  by (simp add: dict_get_def bump_def zeros_lookup category_total_def py_sum_def)

lemma generate_chart_result:
  fixes rs :: "'a::{zero,plus} entry list"
  shows "generate_chart rs =
     Inr (sort (remdups (map category rs)),
          map (\<lambda>c. category_total Income c rs) (sort (remdups (map category rs))),
          map (\<lambda>c. category_total Expense c rs) (sort (remdups (map category rs))))"
proof -
  let ?cats = "sort (remdups (map category rs))"
  let ?z = "map_of (map (\<lambda>cat. (cat, 0::'a)) ?cats)"
  have d: "category ` set rs \<subseteq> dom ?z"
    by (clarsimp simp add: domIff zeros_lookup)
  have "chart_loop rs ?z ?z = Inr (bump Income rs ?z, bump Expense rs ?z)"
    by (rule chart_loop_result [OF d d])
  then show ?thesis
    by (simp add: generate_chart_def Let_def dict_get_bump_zeros cong: map_cong)
qed

text \<open>
  C7. The breakdown behind a chart never fails. Its labels are the categories that occur
  in the records, of either type, each once and in lexicographic order; the income bars
  and the expense bars follow the labels, each the sum of the amounts of its type in its
  category; and a category with no record of a type has \<open>0\<close> on that side. Texts are
  compared byte by byte, which for UTF-8 is the order of Python's strings.
\<close>

theorem generate_chart_breakdown:
  "\<exists>cats. generate_chart rs =
      Inr (cats, map (\<lambda>c. category_total Income c rs) cats,
           map (\<lambda>c. category_total Expense c rs) cats)
    \<and> set cats = category ` set rs \<and> sorted cats \<and> distinct cats
    \<and> cats = sorted_list_of_set (category ` set rs)
    \<and> (\<forall>c. (\<forall>r \<in> set rs. category r = c \<longrightarrow> rtype r = Income) \<longrightarrow>
            category_total Expense c rs = 0)
    \<and> (\<forall>c. (\<forall>r \<in> set rs. category r = c \<longrightarrow> rtype r = Expense) \<longrightarrow>
            category_total Income c rs = 0)"
proof -
  let ?cats = "sort (remdups (map category rs))"
  have z: "category_total k c rs = 0" if "\<forall>r \<in> set rs. category r = c \<longrightarrow> rtype r \<noteq> k" for k c
  proof -
    have "filter (\<lambda>r. rtype r = k \<and> category r = c) rs = []"
      using that by (auto simp add: filter_empty_conv)
    then show ?thesis by (simp add: category_total_def py_sum_def)
  qed
  have "?cats = sorted_list_of_set (category ` set rs)"
    by (simp add: sorted_list_of_set_sort_remdups flip: set_map)
  moreover have "\<forall>c. (\<forall>r \<in> set rs. category r = c \<longrightarrow> rtype r = Income) \<longrightarrow>
            category_total Expense c rs = 0"
    using z [of _ Expense] by auto
  moreover have "\<forall>c. (\<forall>r \<in> set rs. category r = c \<longrightarrow> rtype r = Expense) \<longrightarrow>
            category_total Income c rs = 0"
    using z [of _ Income] by auto
  ultimately show ?thesis
    using generate_chart_result [of rs] by (intro exI [of _ ?cats]) simp
qed

lemma run_chart:
  "generate_chart [entry_a, entry_b, entry_c]
   = Inr ([''Business'', ''Products''], [1050, 0], [0, 300])"
  by code_simp

theorem generate_chart_breakdown_witness:
  "generate_chart [entry_a, entry_b, entry_c]
     = Inr ([''Business'', ''Products''], [1050, 0], [0, 300])
   \<and> category_total Income ''Business'' [entry_a, entry_b, entry_c] = 1050
   \<and> category_total Expense ''Business'' [entry_a, entry_b, entry_c] = 0
   \<and> category_total Expense ''Products'' [entry_a, entry_b, entry_c] = 300
   \<and> sorted_list_of_set (category ` set [entry_a, entry_b, entry_c])
       = [''Business'', ''Products'']"
  using generate_chart_breakdown [of "[entry_a, entry_b, entry_c]"] run_chart
  by auto

section \<open>Duplicates\<close>









section \<open>The daily report\<close>















section \<open>Sums of floats\<close>

lemma bitlen_nat_0: "bitlen_nat 0 = 0"
  by simp

lemma bitlen_nat_pos: "0 < n \<Longrightarrow> bitlen_nat n = Suc (bitlen_nat (n div 2))"
  by simp

declare bitlen_nat.simps [simp del]









lemma floor_rat_numeral:
  "\<lfloor>(numeral a :: rat) / numeral b\<rfloor> = numeral a div numeral b"
  using floor_divide_of_int_eq [of "numeral a" "numeral b", where ?'a = rat] by simp

lemma ceiling_rat_numeral:
  "\<lceil>(numeral a :: rat) / numeral b\<rceil> = - (- numeral a div numeral b)"
  using floor_divide_of_int_eq [of "- numeral a" "numeral b", where ?'a = rat]
  by (simp add: ceiling_def)

lemmas round_eval = exponent_def pow2_def round_half_even_def Let_def bitlen_nat_pos
  bitlen_nat_0 floor_rat_numeral ceiling_rat_numeral

lemma round_double_eval:
  "q \<noteq> 0 \<Longrightarrow> exponent q = e \<Longrightarrow> pow2 (e - 52) = u \<Longrightarrow> round_half_even (q / u) = m
   \<Longrightarrow> round_double q = of_int m * u"
  by (simp add: round_double_def Let_def)

lemma run_tenth: "round_double (1 / 10) = 3602879701896397 / 36028797018963968"
  by (rule round_double_eval [where e = "- 4" and u = "1 / 2 ^ 56" and m = 7205759403792794,
        THEN trans])
    (simp_all add: round_eval)

lemma run_fifth: "round_double (2 / 10) = 3602879701896397 / 18014398509481984"
  by (rule round_double_eval [where e = "- 3" and u = "1 / 2 ^ 55" and m = 7205759403792794,
        THEN trans])
    (simp_all add: round_eval)
















lemma run_float_inputs:
  "dval (amount entry_tenth) = 3602879701896397 / 36028797018963968"
  "dval (amount entry_fifth) = 3602879701896397 / 18014398509481984"
  using run_tenth run_fifth by (simp_all add: entry_tenth_def entry_fifth_def nearest_double_def)




end
